theory Spec2Isabelle
  imports Main
begin

section \<open>Data model\<close>

text \<open>
  Go error values are created here only through \<^verbatim>\<open>fmt.Errorf\<close> with \<^verbatim>\<open>%v\<close>, or
  come from the hypervisor, the file system or a child process; an error is
  identified with its message.
\<close>

type_synonym error = string

text \<open>The entries of \<^verbatim>\<open>ListAllInterfaceAddresses\<close>: an interface with its hardware
  address and its list of typed addresses.\<close>

datatype addr_type = IP_ADDR_TYPE_IPV4 | IP_ADDR_TYPE_IPV6

record DomainIPAddress =
  Type :: addr_type
  Addr :: string

record DomainInterface =
  Hwaddr :: string
  Addrs :: "DomainIPAddress list"

record VMParams =
  Name :: string
  Memory :: nat
  CPUs :: nat
  DiskPath :: string
  OSVariant :: string
  Location :: string
  ExtraArgs :: string
  Network :: string

record NodeParams =
  ClusterName :: string
  BaseDomain :: string
  VMDir :: string
  LBIP :: string
  WSPort :: int
  Image :: string
  VirNet :: string
  BtsMem :: int
  BtsCPU :: int
  MasMem :: int
  MasCPU :: int
  WorMem :: int
  WorCPU :: int
  NMaster :: int
  NWorker :: int
  RHCOSArg :: string
  LibguestfsBackend :: string

text \<open>The fields of \<^verbatim>\<open>LBVMParams\<close> carry the prefix \<open>LB_\<close>, since a field name is
  a constant of the theory and \<^verbatim>\<open>NodeParams\<close> has fields of the same names.\<close>

record LBVMParams =
  LB_ClusterName :: string
  LB_CPU :: int
  LB_MEM :: int
  LB_VirNet :: string
  LB_VMDiskPath :: string
  LB_SSHPubKey :: string
  LB_BaseDomain :: string
  LB_LibguestfsBackend :: string

section \<open>The outside world\<close>

text \<open>
  Every operation on the hypervisor, the file system, a child process or the
  clock is a \<open>call\<close>. The calls a run issues are recorded, oldest first, in the
  \<open>trace\<close> of the world. A network or domain object is named, in a call on it, by
  the name it was looked up or defined under. \<^verbatim>\<open>Free\<close> and \<^verbatim>\<open>Close\<close> of
  handles and the log lines are not recorded.
\<close>

datatype update_flag = NETWORK_UPDATE_AFFECT_LIVE | NETWORK_UPDATE_AFFECT_CONFIG

datatype call =
    NewConnect string
  | LookupNetworkByName string
  | NetworkDefineXML string
  | NetworkSetAutostart string bool
  | NetworkCreate string
  | NetworkGetBridgeName string
  | NetworkGetXMLDesc string
  | NetworkUpdateAddLastDHCPHost string string "update_flag list"
  | DomainCreateXML string
  | LookupDomainByName string
  | DomainCreate string
  | ListAllInterfaceAddressesLease string
  | Sleep nat
  | WriteFile string string
  | OpenFileAppend string
  | WriteString string string
  | SshKeygenR string
  | Ssh "string list"
  | SystemctlRestart string

text \<open>
  The environment answers each call from the history of the calls before it: whether
  it fails, and what a successful query reports. Nothing else is assumed of the
  hypervisor, so a lease may appear at any time and any call may fail at any time.
  The package constant \<^verbatim>\<open>osVariant\<close>, whose declaration is not among the sources
  and which no call receives, is a field of the environment too.
\<close>

record env =
  osVariant :: string
  fails :: "call list \<Rightarrow> call \<Rightarrow> error option"
  leases :: "call list \<Rightarrow> string \<Rightarrow> DomainInterface list"
  bridge_of :: "call list \<Rightarrow> string \<Rightarrow> string"
  xml_of :: "call list \<Rightarrow> string \<Rightarrow> string"

record world =
  trace :: "call list"
  files :: "string \<rightharpoonup> string"

text \<open>\<^verbatim>\<open>time.Sleep\<close> cannot fail; every other call fails when the environment says so.\<close>

fun response :: "env \<Rightarrow> call list \<Rightarrow> call \<Rightarrow> error option" where
  "response env h (Sleep n) = None"
| "response env h c = fails env h c"

definition issue :: "env \<Rightarrow> call \<Rightarrow> world \<Rightarrow> error option \<times> world" where
  "issue env c w = (response env (trace w) c, w\<lparr>trace := trace w @ [c]\<rparr>)"

text \<open>
  A function either returns to its caller, or the process ends inside it:
  \<^verbatim>\<open>logging.Fatal\<close> (``logs an error and exits the program'') gives \<open>Exit\<close> with
  its message and error, a slice out of range gives \<open>Panic\<close>.
\<close>

datatype 'a result = Return 'a | Exit string error | Panic string

section \<open>Formatting\<close>

fun nat_digits :: "nat \<Rightarrow> string" where
  "nat_digits n =
     (if n < 10 then [''0123456789'' ! n]
      else nat_digits (n div 10) @ [''0123456789'' ! (n mod 10)])"

declare nat_digits.simps [simp del]

text \<open>\<^verbatim>\<open>%d\<close> of an \<^verbatim>\<open>int\<close> and of a \<^verbatim>\<open>uint\<close>; \<^verbatim>\<open>uint(x)\<close> of a 64-bit \<^verbatim>\<open>int\<close>.\<close>

definition itoa :: "int \<Rightarrow> string" where
  "itoa i = (if i < 0 then CHR ''-'' # nat_digits (nat (- i)) else nat_digits (nat i))"

definition utoa :: "nat \<Rightarrow> string" where
  "utoa n = nat_digits n"

definition uint :: "int \<Rightarrow> nat" where
  "uint i = nat (i mod 2 ^ 64)"

section \<open>Leases\<close>

text \<open>The two nested loops of \<^verbatim>\<open>GetVMIP\<close>: the first address of type IPv4 that contains
  a dot, on the first interface with a hardware address that has one.\<close>

fun first_ipv4 :: "DomainIPAddress list \<Rightarrow> string option" where
  "first_ipv4 [] = None"
| "first_ipv4 (addr # addrs) =
     (if Type addr = IP_ADDR_TYPE_IPV4 \<and> CHR ''.'' \<in> set (Addr addr) then Some (Addr addr)
      else first_ipv4 addrs)"

fun scan_ifaces :: "DomainInterface list \<Rightarrow> string \<times> string \<times> error option" where
  "scan_ifaces [] = ([], [], None)"
| "scan_ifaces (iface # ifaces) =
     (if Hwaddr iface \<noteq> [] then
        (case first_ipv4 (Addrs iface) of
           Some a \<Rightarrow> (a, Hwaddr iface, None)
         | None \<Rightarrow> scan_ifaces ifaces)
      else scan_ifaces ifaces)"

definition GetVMIP :: "env \<Rightarrow> string \<Rightarrow> world \<Rightarrow> (string \<times> string \<times> error option) \<times> world" where
  "GetVMIP env vmName w =
     (case issue env (LookupDomainByName vmName) w of
        (Some err, w1) \<Rightarrow> (([], [], Some err), w1)
      | (None, w1) \<Rightarrow>
          (case issue env (ListAllInterfaceAddressesLease vmName) w1 of
             (Some err, w2) \<Rightarrow> (([], [], Some err), w2)
           | (None, w2) \<Rightarrow> (scan_ifaces (leases env (trace w1) vmName), w2)))"

text \<open>
  \<^verbatim>\<open>waitForVMIP\<close>: the body of its \<^verbatim>\<open>for\<close> ends in an unconditional
  \<^verbatim>\<open>return "", "", err\<close>, so no path leads back to the head of the loop and the
  model has no recursive call.
\<close>

definition waitForVMIP :: "env \<Rightarrow> string \<Rightarrow> world \<Rightarrow> (string \<times> string \<times> error option) \<times> world" where
  "waitForVMIP env vmName w =
     (case GetVMIP env vmName (snd (issue env (Sleep 5) w)) of
        ((ip, mac, err), w2) \<Rightarrow>
          if err = None \<and> ip \<noteq> [] \<and> mac \<noteq> [] then ((ip, mac, None), w2)
          else (([], [], err), w2))"

section \<open>DHCP reservation\<close>

definition dhcpHostXML :: "string \<Rightarrow> string \<Rightarrow> string" where
  "dhcpHostXML macAddress ipAddress =
     ''<host mac='' @ [CHR 0x27] @ macAddress @ [CHR 0x27] @ '' ip='' @ [CHR 0x27] @
      ipAddress @ [CHR 0x27] @ ''/>''"

definition AddDHCPReservation :: "env \<Rightarrow> string \<Rightarrow> string \<Rightarrow> string \<Rightarrow> world \<Rightarrow> error option \<times> world" where
  "AddDHCPReservation env networkName macAddress ipAddress w =
     (case issue env (LookupNetworkByName networkName) w of
        (Some err, w1) \<Rightarrow> (Some (''failed to find network '' @ networkName @ '': '' @ err), w1)
      | (None, w1) \<Rightarrow>
          (case issue env (NetworkUpdateAddLastDHCPHost networkName (dhcpHostXML macAddress ipAddress)
                             [NETWORK_UPDATE_AFFECT_LIVE, NETWORK_UPDATE_AFFECT_CONFIG]) w1 of
             (Some err, w2) \<Rightarrow>
               (Some (''failed to add DHCP reservation for MAC '' @ macAddress @ '' and IP '' @
                      ipAddress @ '': '' @ err), w2)
           | (None, w2) \<Rightarrow> (None, w2)))"

section \<open>Host mapping files\<close>

text \<open>
  \<^verbatim>\<open>os.WriteFile\<close> creates the file or truncates it and writes the data.
  \<^verbatim>\<open>os.OpenFile\<close> with \<^verbatim>\<open>O_APPEND|O_WRONLY\<close> and no \<^verbatim>\<open>O_CREATE\<close> fails on a file
  that does not exist; a write through it goes to the end of the file.
\<close>

definition os_WriteFile :: "env \<Rightarrow> string \<Rightarrow> string \<Rightarrow> world \<Rightarrow> error option \<times> world" where
  "os_WriteFile env path data w =
     (case issue env (WriteFile path data) w of
        (Some err, w1) \<Rightarrow> (Some err, w1)
      | (None, w1) \<Rightarrow> (None, w1\<lparr>files := (files w1)(path \<mapsto> data)\<rparr>))"

definition os_OpenFile_append :: "env \<Rightarrow> string \<Rightarrow> world \<Rightarrow> error option \<times> world" where
  "os_OpenFile_append env path w =
     (case issue env (OpenFileAppend path) w of
        (Some err, w1) \<Rightarrow> (Some err, w1)
      | (None, w1) \<Rightarrow>
          (case files w1 path of
             None \<Rightarrow> (Some (''open '' @ path @ '': no such file or directory''), w1)
           | Some old \<Rightarrow> (None, w1)))"

definition file_WriteString :: "env \<Rightarrow> string \<Rightarrow> string \<Rightarrow> world \<Rightarrow> error option \<times> world" where
  "file_WriteString env path s w =
     (case issue env (WriteString path s) w of
        (Some err, w1) \<Rightarrow> (Some err, w1)
      | (None, w1) \<Rightarrow>
          (None, w1\<lparr>files := (files w1)(path \<mapsto> (case files w1 path of None \<Rightarrow> [] | Some old \<Rightarrow> old) @ s)\<rparr>))"

definition updateHostDNS :: "env \<Rightarrow> NodeParams \<Rightarrow> string \<Rightarrow> string \<Rightarrow> world \<Rightarrow> unit result \<times> world" where
  "updateHostDNS env params ip vmName w =
     (let hostsEntry = ip @ '' '' @ vmName @ ''.'' @ ClusterName params @ ''.'' @ BaseDomain params in
      case os_WriteFile env (''/etc/hosts.'' @ ClusterName params) hostsEntry w of
        (Some err, w1) \<Rightarrow> (Exit (''Failed to add hosts entry for '' @ vmName) err, w1)
      | (None, w1) \<Rightarrow> (Return (), w1))"

definition updateClusterDNS :: "env \<Rightarrow> string \<Rightarrow> string \<Rightarrow> string \<Rightarrow> world \<Rightarrow> error option \<times> world" where
  "updateClusterDNS env ip clusterName baseDomain w =
     (let filePath = ''/etc/hosts.'' @ clusterName;
          entry = ip @ '' lb.'' @ clusterName @ ''.'' @ baseDomain @ '' api.'' @ clusterName @ ''.'' @
                  baseDomain @ '' api-int.'' @ clusterName @ ''.'' @ baseDomain in
      case os_OpenFile_append env filePath w of
        (Some err, w1) \<Rightarrow> (Some (''failed to open hosts file: '' @ err), w1)
      | (None, w1) \<Rightarrow>
          (case file_WriteString env filePath (entry @ ''\<newline>'') w1 of
             (Some err, w2) \<Rightarrow> (Some (''failed to write to hosts file: '' @ err), w2)
           | (None, w2) \<Rightarrow> (None, w2)))"

section \<open>Virtual machines\<close>

definition NewLibvirtConnection :: "env \<Rightarrow> string \<Rightarrow> world \<Rightarrow> error option \<times> world" where
  "NewLibvirtConnection env uri w =
     (case issue env (NewConnect uri) w of
        (Some err, w1) \<Rightarrow> (Some (''failed to connect to libvirt: '' @ err), w1)
      | (None, w1) \<Rightarrow> (None, w1))"

definition domainXML :: "VMParams \<Rightarrow> string" where
  "domainXML params =
      ''\<newline>'' @
      ''<domain type='kvm'>\<newline>'' @
      ''  <name>'' @ Name params @ ''</name>\<newline>'' @
      ''  <metadata>\<newline>'' @
      ''    <libosinfo:libosinfo xmlns:libosinfo=\"http://libosinfo.org/xmlns/libvirt/domain/1.0\">\<newline>'' @
      ''      <libosinfo:os id=\"http://redhat.com/rhel/9.0\"/>\<newline>'' @
      ''    </libosinfo:libosinfo>\<newline>'' @
      ''  </metadata>\<newline>'' @
      ''  <memory unit='MiB'>'' @ utoa (Memory params) @ ''</memory>\<newline>'' @
      ''  <vcpu placement='static'>'' @ utoa (CPUs params) @ ''</vcpu>\<newline>'' @
      ''  <cpu mode='host-passthrough'>\<newline>'' @
      ''    <model fallback='allow'/>\<newline>'' @
      ''  </cpu>\<newline>'' @
      ''  <os>\<newline>'' @
      ''    <type arch='x86_64' machine='pc-q35-rhel9.4.0'>hvm</type>\<newline>'' @
      ''    <boot dev='hd'/>\<newline>'' @
      ''  </os>\<newline>'' @
      ''  <features>\<newline>'' @
      ''    <acpi/>\<newline>'' @
      ''    <apic/>\<newline>'' @
      ''  </features>\<newline>'' @
      ''  <devices>\<newline>'' @
      ''    <disk type='file' device='disk'>\<newline>'' @
      ''      <driver name='qemu' type='qcow2'/>\<newline>'' @
      ''      <source file='' @ [CHR 0x27] @ DiskPath params @ [CHR 0x27] @ ''/>\<newline>'' @
      ''      <target dev='vda' bus='virtio'/>\<newline>'' @
      ''    </disk>\<newline>'' @
      ''    <interface type='network'>\<newline>'' @
      ''      <source network='' @ [CHR 0x27] @ Network params @ [CHR 0x27] @ ''/>\<newline>'' @
      ''      <model type='virtio'/>\<newline>'' @
      ''    </interface>\<newline>'' @
      ''    <graphics type='vnc' autoport='yes'/>\<newline>'' @
      ''  </devices>\<newline>'' @
      ''</domain>''"

definition CreateVM :: "env \<Rightarrow> VMParams \<Rightarrow> world \<Rightarrow> error option \<times> world" where
  "CreateVM env params w =
     (case issue env (DomainCreateXML (domainXML params)) w of
        (Some err, w1) \<Rightarrow> (Some (''failed to create domain: '' @ err), w1)
      | (None, w1) \<Rightarrow> (None, w1))"

definition StartVM :: "env \<Rightarrow> string \<Rightarrow> world \<Rightarrow> error option \<times> world" where
  "StartVM env vmName w =
     (case issue env (LookupDomainByName vmName) w of
        (Some err, w1) \<Rightarrow> (Some (''failed to find VM '' @ vmName @ '': '' @ err), w1)
      | (None, w1) \<Rightarrow>
          (case issue env (DomainCreate vmName) w1 of
             (Some err, w2) \<Rightarrow> (Some (''failed to start VM '' @ vmName @ '': '' @ err), w2)
           | (None, w2) \<Rightarrow> (None, w2)))"

section \<open>SSH readiness\<close>

definition removeOldHostKey :: "env \<Rightarrow> string \<Rightarrow> world \<Rightarrow> error option \<times> world" where
  "removeOldHostKey env host w = issue env (SshKeygenR host) w"

definition sshCommand :: "string \<Rightarrow> string \<Rightarrow> string \<Rightarrow> call" where
  "sshCommand sshKeyPath sshUser vmIP =
     Ssh [''-i'', sshKeyPath, ''-o'', ''StrictHostKeyChecking=no'', sshUser @ ''@'' @ vmIP, ''true'']"

text \<open>The \<^verbatim>\<open>for\<close> of \<^verbatim>\<open>WaitForSSHAccess\<close> has no bound: a run in which no attempt
  succeeds is the value \<open>None\<close>.\<close>

partial_function (option) WaitForSSHAccess_loop ::
  "env \<Rightarrow> string \<Rightarrow> string \<Rightarrow> string \<Rightarrow> string \<Rightarrow> world \<Rightarrow> (error option \<times> world) option" where
  "WaitForSSHAccess_loop env vmIP host sshKeyPath sshUser w =
     (case issue env (sshCommand sshKeyPath sshUser vmIP) (snd (issue env (Sleep 5) w)) of
        (None, w2) \<Rightarrow> Some (None, w2)
      | (Some err, w2) \<Rightarrow> WaitForSSHAccess_loop env vmIP host sshKeyPath sshUser w2)"

definition WaitForSSHAccess ::
  "env \<Rightarrow> string \<Rightarrow> string \<Rightarrow> string \<Rightarrow> string \<Rightarrow> world \<Rightarrow> (error option \<times> world) option" where
  "WaitForSSHAccess env vmIP host sshKeyPath sshUser w =
     (case removeOldHostKey env vmIP w of
        (Some err, w1) \<Rightarrow> Some (Some err, w1)
      | (None, w1) \<Rightarrow>
          (case removeOldHostKey env host w1 of
             (Some err, w2) \<Rightarrow> Some (Some err, w2)
           | (None, w2) \<Rightarrow> WaitForSSHAccess_loop env vmIP host sshKeyPath sshUser w2))"

section \<open>Cohort creation\<close>

definition installArgs :: "NodeParams \<Rightarrow> string \<Rightarrow> string" where
  "installArgs params ign =
     ''nomodeset rd.neednet=1 coreos.inst=yes coreos.inst.install_dev=vda '' @ RHCOSArg params @
     ''=http://'' @ LBIP params @ '':'' @ itoa (WSPort params) @ ''/'' @ Image params @
     '' coreos.inst.ignition_url=http://'' @ LBIP params @ '':'' @ itoa (WSPort params) @ ''/'' @ ign"

definition bootstrapParams :: "env \<Rightarrow> NodeParams \<Rightarrow> VMParams" where
  "bootstrapParams env params =
     \<lparr>Name = ClusterName params @ ''-bootstrap'',
      Memory = uint (BtsMem params),
      CPUs = uint (BtsCPU params),
      DiskPath = VMDir params @ ''/'' @ ClusterName params @ ''-bootstrap.qcow2'',
      OSVariant = osVariant env,
      Location = ''rhcos-install/'',
      ExtraArgs = installArgs params ''bootstrap.ign'',
      Network = VirNet params\<rparr>"

definition masterParams :: "env \<Rightarrow> NodeParams \<Rightarrow> int \<Rightarrow> VMParams" where
  "masterParams env params i =
     \<lparr>Name = ClusterName params @ ''-master-'' @ itoa i,
      Memory = uint (MasMem params),
      CPUs = uint (MasCPU params),
      DiskPath = VMDir params @ ''/'' @ ClusterName params @ ''-master-'' @ itoa i @ ''.qcow2'',
      OSVariant = osVariant env,
      Location = ''rhcos-install/'',
      ExtraArgs = installArgs params ''master.ign'',
      Network = VirNet params\<rparr>"

definition workerParams :: "env \<Rightarrow> NodeParams \<Rightarrow> int \<Rightarrow> VMParams" where
  "workerParams env params i =
     \<lparr>Name = ClusterName params @ ''-worker-'' @ itoa i,
      Memory = uint (WorMem params),
      CPUs = uint (WorCPU params),
      DiskPath = VMDir params @ ''/'' @ ClusterName params @ ''-worker-'' @ itoa i @ ''.qcow2'',
      OSVariant = osVariant env,
      Location = ''rhcos-install/'',
      ExtraArgs = installArgs params ''worker.ign'',
      Network = VirNet params\<rparr>"

definition createBootstrapNode :: "env \<Rightarrow> NodeParams \<Rightarrow> world \<Rightarrow> error option \<times> world" where
  "createBootstrapNode env params w = CreateVM env (bootstrapParams env params) w"

text \<open>The loops \<^verbatim>\<open>for i := 1; i <= n; i++\<close>, entered at \<open>i\<close>. The counts are Go
  \<^verbatim>\<open>int\<close>s far below \<open>2^63\<close>, so \<open>i + 1\<close> does not wrap.\<close>

function createMasterNodes_from :: "env \<Rightarrow> NodeParams \<Rightarrow> int \<Rightarrow> world \<Rightarrow> error option \<times> world" where
  "createMasterNodes_from env params i w =
     (if i \<le> NMaster params then
        (case CreateVM env (masterParams env params i) w of
           (Some err, w1) \<Rightarrow> (Some err, w1)
         | (None, w1) \<Rightarrow> createMasterNodes_from env params (i + 1) w1)
      else (None, w))"
  by pat_completeness auto
termination
  by (relation "measure (\<lambda>(env, params, i, w). nat (NMaster params + 1 - i))") auto

declare createMasterNodes_from.simps [simp del]

definition createMasterNodes :: "env \<Rightarrow> NodeParams \<Rightarrow> world \<Rightarrow> error option \<times> world" where
  "createMasterNodes env params w = createMasterNodes_from env params 1 w"

function createWorkerNodes_from :: "env \<Rightarrow> NodeParams \<Rightarrow> int \<Rightarrow> world \<Rightarrow> error option \<times> world" where
  "createWorkerNodes_from env params i w =
     (if i \<le> NWorker params then
        (case CreateVM env (workerParams env params i) w of
           (Some err, w1) \<Rightarrow> (Some err, w1)
         | (None, w1) \<Rightarrow> createWorkerNodes_from env params (i + 1) w1)
      else (None, w))"
  by pat_completeness auto
termination
  by (relation "measure (\<lambda>(env, params, i, w). nat (NWorker params + 1 - i))") auto

declare createWorkerNodes_from.simps [simp del]

definition createWorkerNodes :: "env \<Rightarrow> NodeParams \<Rightarrow> world \<Rightarrow> error option \<times> world" where
  "createWorkerNodes env params w = createWorkerNodes_from env params 1 w"

section \<open>Addressing\<close>

definition getRoleCount :: "NodeParams \<Rightarrow> string \<Rightarrow> int" where
  "getRoleCount params role =
     (if role = ''bootstrap'' then 1
      else if role = ''master'' then NMaster params
      else if role = ''worker'' then NWorker params
      else 0)"

text \<open>
  The inner loop of \<^verbatim>\<open>waitForVMIPs\<close>, entered at \<open>i\<close>, and its loop over the roles.
  \<open>Return None\<close> of the inner loop is its normal end. The reservation is called as the
  source calls it: \<^verbatim>\<open>AddDHCPReservation(conn, ip, mac, params.VirNet)\<close> against the
  parameters \<^verbatim>\<open>(conn, networkName, macAddress, ipAddress)\<close>.
\<close>

function waitForVMIPs_role :: "env \<Rightarrow> NodeParams \<Rightarrow> string \<Rightarrow> int \<Rightarrow> world \<Rightarrow> error option result \<times> world" where
  "waitForVMIPs_role env params role i w =
     (if i \<le> getRoleCount params role then
        (let vmName = ClusterName params @ ''-'' @ role @ ''-'' @ itoa i in
         case waitForVMIP env vmName w of
           ((ip, mac, Some err), w1) \<Rightarrow> (Exit (''Failed to get IP for '' @ vmName) err, w1)
         | ((ip, mac, None), w1) \<Rightarrow>
             (case AddDHCPReservation env ip mac (VirNet params) w1 of
                (Some err, w2) \<Rightarrow> (Return (Some err), w2)
              | (None, w2) \<Rightarrow>
                  (case updateHostDNS env params ip vmName w2 of
                     (Return u, w3) \<Rightarrow> waitForVMIPs_role env params role (i + 1) w3
                   | (Exit m err, w3) \<Rightarrow> (Exit m err, w3)
                   | (Panic m, w3) \<Rightarrow> (Panic m, w3))))
      else (Return None, w))"
  by pat_completeness auto
termination
  by (relation "measure (\<lambda>(env, params, role, i, w). nat (getRoleCount params role + 1 - i))") auto

declare waitForVMIPs_role.simps [simp del]

fun waitForVMIPs_roles :: "env \<Rightarrow> NodeParams \<Rightarrow> string list \<Rightarrow> world \<Rightarrow> error option result \<times> world" where
  "waitForVMIPs_roles env params [] w = (Return None, w)"
| "waitForVMIPs_roles env params (role # roles) w =
     (case waitForVMIPs_role env params role 1 w of
        (Return None, w1) \<Rightarrow> waitForVMIPs_roles env params roles w1
      | (r, w1) \<Rightarrow> (r, w1))"

definition waitForVMIPs :: "env \<Rightarrow> NodeParams \<Rightarrow> world \<Rightarrow> error option result \<times> world" where
  "waitForVMIPs env params w = waitForVMIPs_roles env params [''bootstrap'', ''master'', ''worker''] w"

section \<open>The cohort track\<close>

text \<open>
  \<^verbatim>\<open>CreateNodes\<close> up to and including \<^verbatim>\<open>waitForVMIPs\<close>: the connection, the three
  creation steps and the addressing stage. Each failed step but the last goes
  through \<^verbatim>\<open>logging.Fatal\<close>, which ends the process before the \<^verbatim>\<open>return err\<close> that
  follows it.
\<close>

definition CreateNodes_stages :: "env \<Rightarrow> NodeParams \<Rightarrow> world \<Rightarrow> error option result \<times> world" where
  "CreateNodes_stages env params w =
     (case NewLibvirtConnection env (LibguestfsBackend params) w of
        (Some err, w1) \<Rightarrow> (Exit ''Failed to connect to libvirt'' err, w1)
      | (None, w1) \<Rightarrow>
     (case createBootstrapNode env params w1 of
        (Some err, w2) \<Rightarrow> (Exit ''Failed to create bootstrap node'' err, w2)
      | (None, w2) \<Rightarrow>
     (case createMasterNodes env params w2 of
        (Some err, w3) \<Rightarrow> (Exit ''Failed to create master nodes'' err, w3)
      | (None, w3) \<Rightarrow>
     (case createWorkerNodes env params w3 of
        (Some err, w4) \<Rightarrow> (Exit ''Failed to create worker nodes'' err, w4)
      | (None, w4) \<Rightarrow> waitForVMIPs env params w4))))"

text \<open>The rest of \<^verbatim>\<open>CreateNodes\<close>: the error of the last \<^verbatim>\<open>GetVMIP\<close> is assigned and
  not read, and the SSH wait may never return.\<close>

definition CreateNodes :: "env \<Rightarrow> NodeParams \<Rightarrow> world \<Rightarrow> (error option result \<times> world) option" where
  "CreateNodes env params w =
     (case CreateNodes_stages env params w of
        (Return None, w5) \<Rightarrow>
          (case GetVMIP env (ClusterName params @ ''-bootstrap'') w5 of
             ((bootstrapIP, mac, err), w6) \<Rightarrow>
               map_option (\<lambda>(e, w7). (Return e, w7))
                 (WaitForSSHAccess env bootstrapIP
                    (''bootstrap.'' @ ClusterName params @ ''.'' @ BaseDomain params) ''sshkey'' ''core'' w6))
      | (r, w5) \<Rightarrow> Some (r, w5))"

section \<open>The load-balancer track\<close>

definition ReloadDNS :: "env \<Rightarrow> string \<Rightarrow> world \<Rightarrow> error option \<times> world" where
  "ReloadDNS env dnsSvc w =
     (case issue env (SystemctlRestart dnsSvc) w of
        (Some err, w1) \<Rightarrow> (Some (''failed to restart DNS service '' @ dnsSvc @ '': '' @ err), w1)
      | (None, w1) \<Rightarrow>
          (case issue env (SystemctlRestart ''virtnetworkd'') (snd (issue env (Sleep 5) w1)) of
             (Some err, w2) \<Rightarrow> (Some (''failed to restart virtnetworkd service: '' @ err), w2)
           | (None, w2) \<Rightarrow> (None, w2)))"

definition lbParams :: "env \<Rightarrow> LBVMParams \<Rightarrow> VMParams" where
  "lbParams env params =
     \<lparr>Name = LB_ClusterName params @ ''-lb'',
      Memory = uint (LB_MEM params),
      CPUs = uint (LB_CPU params),
      DiskPath = LB_VMDiskPath params,
      OSVariant = osVariant env,
      Location = [],
      ExtraArgs = [],
      Network = LB_VirNet params\<rparr>"

definition createAndStartLBVM :: "env \<Rightarrow> LBVMParams \<Rightarrow> world \<Rightarrow> error option \<times> world" where
  "createAndStartLBVM env params w =
     (case CreateVM env (lbParams env params) w of
        (Some err, w1) \<Rightarrow> (Some (''failed to create load balancer VM: '' @ err), w1)
      | (None, w1) \<Rightarrow>
          (case StartVM env (Name (lbParams env params)) w1 of
             (Some err, w2) \<Rightarrow> (Some (''failed to start load balancer VM: '' @ err), w2)
           | (None, w2) \<Rightarrow> (None, w2)))"

text \<open>\<^verbatim>\<open>CreateLBVM\<close> up to and including \<^verbatim>\<open>dns.ReloadDNS\<close>, then the whole of it with
  its SSH wait.\<close>

definition CreateLBVM_stages :: "env \<Rightarrow> LBVMParams \<Rightarrow> string \<Rightarrow> world \<Rightarrow> (string \<times> error option) \<times> world" where
  "CreateLBVM_stages env params dnsSvc w =
     (case NewLibvirtConnection env (LB_LibguestfsBackend params) w of
        (Some err, w1) \<Rightarrow> (([], Some (''failed to connect to libvirt: '' @ err)), w1)
      | (None, w1) \<Rightarrow>
     (case createAndStartLBVM env params w1 of
        (Some err, w2) \<Rightarrow> (([], Some err), w2)
      | (None, w2) \<Rightarrow>
     (case waitForVMIP env (LB_ClusterName params) w2 of
        ((lbIP, lbMAC, Some err), w3) \<Rightarrow> (([], Some err), w3)
      | ((lbIP, lbMAC, None), w3) \<Rightarrow>
     (case AddDHCPReservation env (LB_VirNet params) lbMAC lbIP w3 of
        (Some err, w4) \<Rightarrow> (([], Some (''failed to add DHCP reservation: '' @ err)), w4)
      | (None, w4) \<Rightarrow>
     (case updateClusterDNS env lbIP (LB_ClusterName params) (LB_BaseDomain params) w4 of
        (Some err, w5) \<Rightarrow> (([], Some err), w5)
      | (None, w5) \<Rightarrow>
     (case ReloadDNS env dnsSvc w5 of
        (Some err, w6) \<Rightarrow> (([], Some (''failed to restart DNS service: '' @ err)), w6)
      | (None, w6) \<Rightarrow> ((lbIP, None), w6)))))))"

definition CreateLBVM ::
  "env \<Rightarrow> LBVMParams \<Rightarrow> string \<Rightarrow> string \<Rightarrow> string \<Rightarrow> world \<Rightarrow> (error option \<times> world) option" where
  "CreateLBVM env params dnsDir dnsSvc gatewayIP w =
     (case CreateLBVM_stages env params dnsSvc w of
        ((lbIP, Some err), w6) \<Rightarrow> Some (Some err, w6)
      | ((lbIP, None), w6) \<Rightarrow>
          WaitForSSHAccess env lbIP (''lb.'' @ LB_ClusterName params @ ''.'' @ LB_BaseDomain params)
            ''sshkey'' ''root'' w6)"

section \<open>The virtual network\<close>

definition networkXML :: "string \<Rightarrow> string \<Rightarrow> string" where
  "networkXML networkName virNetOct =
      ''\<newline>'' @
      ''<network>\<newline>'' @
      ''  <name>'' @ networkName @ ''</name>\<newline>'' @
      ''  <bridge name=\"'' @ networkName @ ''\"/>\<newline>'' @
      ''  <forward/>\<newline>'' @
      ''  <ip address=\"192.168.'' @ virNetOct @ ''.1\" netmask=\"255.255.255.0\">\<newline>'' @
      ''    <dhcp>\<newline>'' @
      ''      <range start=\"192.168.'' @ virNetOct @ ''.2\" end=\"192.168.'' @ virNetOct @ ''.254\"/>\<newline>'' @
      ''    </dhcp>\<newline>'' @
      ''  </ip>\<newline>'' @
      ''</network>''"

definition createNewLibvirtNetwork :: "env \<Rightarrow> string \<Rightarrow> string \<Rightarrow> world \<Rightarrow> error option \<times> world" where
  "createNewLibvirtNetwork env networkName virNetOct w =
     (case issue env (NetworkDefineXML (networkXML networkName virNetOct)) w of
        (Some err, w1) \<Rightarrow> (Some (''failed to define network: '' @ err), w1)
      | (None, w1) \<Rightarrow>
     (case issue env (NetworkSetAutostart networkName True) w1 of
        (Some err, w2) \<Rightarrow> (Some (''failed to set autostart: '' @ err), w2)
      | (None, w2) \<Rightarrow>
     (case issue env (NetworkCreate networkName) w2 of
        (Some err, w3) \<Rightarrow> (Some (''failed to start network: '' @ err), w3)
      | (None, w3) \<Rightarrow> (None, w3))))"

definition getLibvirtBridge :: "env \<Rightarrow> string \<Rightarrow> world \<Rightarrow> (string \<times> error option) \<times> world" where
  "getLibvirtBridge env networkName w =
     (case issue env (LookupNetworkByName networkName) w of
        (Some err, w1) \<Rightarrow> (([], Some (''failed to lookup network '' @ networkName @ '': '' @ err)), w1)
      | (None, w1) \<Rightarrow>
     (case issue env (NetworkGetBridgeName networkName) w1 of
        (Some err, w2) \<Rightarrow>
          (([], Some (''failed to get bridge name for network '' @ networkName @ '': '' @ err)), w2)
      | (None, w2) \<Rightarrow> ((bridge_of env (trace w1) networkName, None), w2)))"

text \<open>\<^verbatim>\<open>strings.Index\<close>: the index of the first occurrence, \<open>None\<close> for \<open>-1\<close>.\<close>

fun strings_Index_from :: "string \<Rightarrow> string \<Rightarrow> nat \<Rightarrow> nat option" where
  "strings_Index_from substr [] i = (if substr = [] then Some i else None)"
| "strings_Index_from substr (c # s) i =
     (if take (length substr) (c # s) = substr then Some i
      else strings_Index_from substr s (Suc i))"

definition strings_Index :: "string \<Rightarrow> string \<Rightarrow> nat option" where
  "strings_Index s substr = strings_Index_from substr s 0"

text \<open>
  The gateway is cut out of the descriptor by position. The search is for
  \<^verbatim>\<open><ip address=\<close> (12 bytes) and the start moves on by the length of
  \<^verbatim>\<open><ip address="\<close> (13 bytes): on a descriptor that ends with the searched text the
  slice \<^verbatim>\<open>xmlDesc[ipAddrStart:]\<close> is out of range and the run panics.
\<close>

definition parseGatewayIP :: "string \<Rightarrow> string \<Rightarrow> (string \<times> error option) result" where
  "parseGatewayIP networkName xmlDesc =
     (case strings_Index xmlDesc ''<ip address='' of
        None \<Rightarrow> Return ([], Some (''IP address not found in network XML for '' @ networkName))
      | Some i \<Rightarrow>
          (let ipAddrStart = i + length ''<ip address=\"'' in
           if length xmlDesc < ipAddrStart then Panic ''slice bounds out of range''
           else
             (case strings_Index (drop ipAddrStart xmlDesc) ''\"'' of
                None \<Rightarrow> Return ([], Some (''malformed XML while parsing IP address for '' @ networkName))
              | Some ipAddrEnd \<Rightarrow> Return (take ipAddrEnd (drop ipAddrStart xmlDesc), None))))"

definition getLibvirtNetworkGatewayIP :: "env \<Rightarrow> string \<Rightarrow> world \<Rightarrow> (string \<times> error option) result \<times> world" where
  "getLibvirtNetworkGatewayIP env networkName w =
     (case issue env (LookupNetworkByName networkName) w of
        (Some err, w1) \<Rightarrow>
          (Return ([], Some (''failed to lookup network '' @ networkName @ '': '' @ err)), w1)
      | (None, w1) \<Rightarrow>
     (case issue env (NetworkGetXMLDesc networkName) w1 of
        (Some err, w2) \<Rightarrow>
          (Return ([], Some (''failed to get network XML description for '' @ networkName @ '': '' @ err)), w2)
      | (None, w2) \<Rightarrow> (parseGatewayIP networkName (xml_of env (trace w1) networkName), w2)))"

text \<open>The last part of \<^verbatim>\<open>EnsureLibvirtNetwork\<close>, common to its branches: the bridge and
  the gateway of the network settled on.\<close>

definition bridgeAndGateway :: "env \<Rightarrow> string \<Rightarrow> world \<Rightarrow> (string \<times> string \<times> error option) result \<times> world" where
  "bridgeAndGateway env virNet w =
     (case getLibvirtBridge env virNet w of
        ((bridgeName, Some err), w1) \<Rightarrow> (Return ([], [], Some err), w1)
      | ((bridgeName, None), w1) \<Rightarrow>
          (case getLibvirtNetworkGatewayIP env virNet w1 of
             (Return (gatewayIP, Some err), w2) \<Rightarrow> (Return (bridgeName, [], Some err), w2)
           | (Return (gatewayIP, None), w2) \<Rightarrow> (Return (bridgeName, gatewayIP, None), w2)
           | (Exit m err, w2) \<Rightarrow> (Exit m err, w2)
           | (Panic m, w2) \<Rightarrow> (Panic m, w2)))"

definition EnsureLibvirtNetwork ::
  "env \<Rightarrow> string \<Rightarrow> string \<Rightarrow> string \<Rightarrow> world \<Rightarrow> (string \<times> string \<times> error option) result \<times> world" where
  "EnsureLibvirtNetwork env virNetOct virNet libguestfsBackendDirect w =
     (case NewLibvirtConnection env libguestfsBackendDirect w of
        (Some err, w1) \<Rightarrow> (Return ([], [], Some (''failed to connect to libvirt: '' @ err)), w1)
      | (None, w1) \<Rightarrow>
          if virNetOct \<noteq> [] then
            (let networkName = ''ocp-'' @ virNetOct in
             case issue env (LookupNetworkByName networkName) w1 of
               (None, w2) \<Rightarrow> bridgeAndGateway env networkName w2
             | (Some err, w2) \<Rightarrow>
                 (case createNewLibvirtNetwork env networkName virNetOct w2 of
                    (Some err', w3) \<Rightarrow> (Return ([], [], Some err'), w3)
                  | (None, w3) \<Rightarrow> bridgeAndGateway env networkName w3))
          else if virNet \<noteq> [] then
            (case issue env (LookupNetworkByName virNet) w1 of
               (Some err, w2) \<Rightarrow>
                 (Return ([], [], Some (''libvirt network '' @ virNet @ '' doesn't exist: '' @ err)), w2)
             | (None, w2) \<Rightarrow> bridgeAndGateway env virNet w2)
          else
            (Return ([], [], Some ''unhandled situation: either virNetOct or virNet must be provided''), w1))"

section \<open>Runs, failures and the inputs of the examples\<close>

text \<open>
  \<open>failure_free env h cs\<close>: issued one after the other from the history \<open>h\<close>, each of
  the calls \<open>cs\<close> succeeds. \<open>fail_stop env w ok w'\<close>: the run from \<open>w\<close> to \<open>w'\<close> only
  added calls, every call but the last succeeded, and \<open>ok\<close> tells whether the last did
  too; so a failed call is the last call of the run.
\<close>

fun failure_free :: "env \<Rightarrow> call list \<Rightarrow> call list \<Rightarrow> bool" where
  "failure_free env h [] = True"
| "failure_free env h (c # cs) = (response env h c = None \<and> failure_free env (h @ [c]) cs)"

definition fail_stop :: "env \<Rightarrow> world \<Rightarrow> bool \<Rightarrow> world \<Rightarrow> bool" where
  "fail_stop env w ok w' \<longleftrightarrow>
     (\<exists>cs. trace w' = trace w @ cs \<and> failure_free env (trace w) (butlast cs) \<and>
           (ok \<longleftrightarrow> failure_free env (trace w) cs))"

text \<open>The hypervisor call that creates the bootstrap node, master \<open>i\<close> and worker \<open>j\<close>.\<close>

definition bootstrap_call :: "env \<Rightarrow> NodeParams \<Rightarrow> call" where
  "bootstrap_call env p = DomainCreateXML (domainXML (bootstrapParams env p))"

definition master_call :: "env \<Rightarrow> NodeParams \<Rightarrow> int \<Rightarrow> call" where
  "master_call env p i = DomainCreateXML (domainXML (masterParams env p i))"

definition worker_call :: "env \<Rightarrow> NodeParams \<Rightarrow> int \<Rightarrow> call" where
  "worker_call env p j = DomainCreateXML (domainXML (workerParams env p j))"

text \<open>
  \<open>no_lease_at env h vmName\<close>: a query of the addresses of \<open>vmName\<close> made at the
  history \<open>h\<close> succeeds, and reports no interface that has both a hardware address and
  an address of type IPv4.
\<close>

definition no_lease_at :: "env \<Rightarrow> call list \<Rightarrow> string \<Rightarrow> bool" where
  "no_lease_at env h vmName \<longleftrightarrow>
     fails env h (LookupDomainByName vmName) = None \<and>
     fails env (h @ [LookupDomainByName vmName]) (ListAllInterfaceAddressesLease vmName) = None \<and>
     (\<forall>iface \<in> set (leases env (h @ [LookupDomainByName vmName]) vmName).
        \<not> (Hwaddr iface \<noteq> [] \<and> (\<exists>a \<in> set (Addrs iface). Type a = IP_ADDR_TYPE_IPV4)))"

text \<open>A fresh world, an environment in which every call succeeds and no lease is ever
  reported, and the parameters of a cluster \<open>ocp\<close> of three masters and two workers.\<close>

definition world0 :: world where
  "world0 = \<lparr>trace = [], files = Map.empty\<rparr>"

definition env_ok :: env where
  "env_ok = \<lparr>osVariant = ''rhel9.0'', fails = (\<lambda>h c. None), leases = (\<lambda>h vm. []),
             bridge_of = (\<lambda>h n. ''virbr100''), xml_of = (\<lambda>h n. networkXML n ''100'')\<rparr>"

definition params0 :: NodeParams where
  "params0 = \<lparr>ClusterName = ''ocp'', BaseDomain = ''example.com'', VMDir = ''/var/lib/libvirt/images'',
      LBIP = ''192.168.100.5'', WSPort = 1234, Image = ''rhcos-live-rootfs.x86_64.img'',
      VirNet = ''ocp-100'', BtsMem = 16384, BtsCPU = 4, MasMem = 16384, MasCPU = 4,
      WorMem = 8192, WorCPU = 2, NMaster = 3, NWorker = 2,
      RHCOSArg = ''coreos.live.rootfs_url'', LibguestfsBackend = ''qemu:///system''\<rparr>"

text \<open>The lease database holds one interface, with a hardware address and an IPv6
  address only.\<close>

definition env_ipv6_only :: env where
  "env_ipv6_only = env_ok\<lparr>leases := (\<lambda>h vm.
      [\<lparr>Hwaddr = ''52:54:00:aa:bb:01'', Addrs = [\<lparr>Type = IP_ADDR_TYPE_IPV6, Addr = ''fe80::1''\<rparr>]\<rparr>])\<rparr>"

section \<open>A failed call ends the run\<close>

lemma failure_free_append:
  "failure_free env h (cs @ ds) \<longleftrightarrow> failure_free env h cs \<and> failure_free env (h @ cs) ds"
  by (induction cs arbitrary: h) auto

lemma failure_free_butlast: "failure_free env h cs \<Longrightarrow> failure_free env h (butlast cs)"
proof (cases "cs = []")
  case True
  then show ?thesis by simp
next
  case False
  assume "failure_free env h cs"
  then have "failure_free env h (butlast cs @ [last cs])" using False by simp
  then show ?thesis unfolding failure_free_append by simp
qed

lemma fail_stop_refl: "fail_stop env w True w"
  by (simp add: fail_stop_def)

lemma fail_stop_issue: "fail_stop env w (fst (issue env c w) = None) (snd (issue env c w))"
  by (simp add: fail_stop_def issue_def)

lemma fail_stop_trans:
  assumes "fail_stop env w True w1" and "fail_stop env w1 ok w2"
  shows "fail_stop env w ok w2"
proof -
  from assms(1) obtain cs where cs: "trace w1 = trace w @ cs" "failure_free env (trace w) cs"
    by (auto simp: fail_stop_def)
  from assms(2) obtain ds where ds: "trace w2 = trace w1 @ ds"
    "failure_free env (trace w1) (butlast ds)" "ok \<longleftrightarrow> failure_free env (trace w1) ds"
    by (auto simp: fail_stop_def)
  have "trace w2 = trace w @ (cs @ ds)" using cs ds by simp
  moreover have "failure_free env (trace w) (butlast (cs @ ds))"
    using cs ds by (simp add: butlast_append failure_free_append failure_free_butlast)
  moreover have "ok \<longleftrightarrow> failure_free env (trace w) (cs @ ds)"
    using cs ds by (simp add: failure_free_append)
  ultimately show ?thesis unfolding fail_stop_def by blast
qed

lemma fail_stop_files [simp]: "fail_stop env w ok (w'\<lparr>files := f\<rparr>) = fail_stop env w ok w'"
  by (simp add: fail_stop_def)

lemma fail_stop_extends: "fail_stop env w ok w' \<Longrightarrow> \<exists>cs. trace w' = trace w @ cs"
  by (auto simp: fail_stop_def)

text \<open>One call, then the rest only if it succeeded.\<close>

lemma fail_stop_step:
  assumes "\<And>w1. issue env c w = (None, w1) \<Longrightarrow> fail_stop env w1 ok w2"
    and "\<And>err w1. issue env c w = (Some err, w1) \<Longrightarrow> \<not> ok \<and> w2 = w1"
  shows "fail_stop env w ok w2"
proof (cases "fst (issue env c w)")
  case None
  then have i: "issue env c w = (None, snd (issue env c w))" by (metis prod.collapse)
  have "fail_stop env w True (snd (issue env c w))" using fail_stop_issue [of env w c] None by simp
  then show ?thesis using assms(1) [OF i] fail_stop_trans by blast
next
  case (Some err)
  then have i: "issue env c w = (Some err, snd (issue env c w))" by (metis prod.collapse)
  have "fail_stop env w False (snd (issue env c w))" using fail_stop_issue [of env w c] Some by simp
  then show ?thesis using assms(2) [OF i] by simp
qed

lemma AddDHCPReservation_trace:
  "\<exists>evs. trace (snd (AddDHCPReservation env n m i w)) = trace w @ LookupNetworkByName n # evs"
  by (auto simp: AddDHCPReservation_def issue_def split: option.splits)

lemma GetVMIP_fail_stop:
  "fail_stop env w (snd (snd (fst (GetVMIP env vmName w))) = None) (snd (GetVMIP env vmName w))"
proof (rule fail_stop_step [where c = "LookupDomainByName vmName"])
  fix w1 assume 1: "issue env (LookupDomainByName vmName) w = (None, w1)"
  show "fail_stop env w1 (snd (snd (fst (GetVMIP env vmName w))) = None) (snd (GetVMIP env vmName w))"
  proof (rule fail_stop_step [where c = "ListAllInterfaceAddressesLease vmName"])
    fix w2 assume 2: "issue env (ListAllInterfaceAddressesLease vmName) w1 = (None, w2)"
    have "snd (snd (scan_ifaces ifs)) = None" for ifs
      by (induction ifs) (auto split: option.splits)
    then show "fail_stop env w2 (snd (snd (fst (GetVMIP env vmName w))) = None) (snd (GetVMIP env vmName w))"
      using 1 2 by (simp add: GetVMIP_def fail_stop_refl)
  next
    fix err w2 assume "issue env (ListAllInterfaceAddressesLease vmName) w1 = (Some err, w2)"
    then show "\<not> (snd (snd (fst (GetVMIP env vmName w))) = None) \<and> snd (GetVMIP env vmName w) = w2"
      using 1 by (simp add: GetVMIP_def)
  qed
next
  fix err w1 assume "issue env (LookupDomainByName vmName) w = (Some err, w1)"
  then show "\<not> (snd (snd (fst (GetVMIP env vmName w))) = None) \<and> snd (GetVMIP env vmName w) = w1"
    by (simp add: GetVMIP_def)
qed

lemma waitForVMIP_fail_stop:
  "fail_stop env w (snd (snd (fst (waitForVMIP env vmName w))) = None) (snd (waitForVMIP env vmName w))"
proof -
  let ?w1 = "snd (issue env (Sleep 5) w)"
  have 1: "fail_stop env w True ?w1" using fail_stop_issue [of env w "Sleep 5"] by (simp add: issue_def)
  have 2: "fail_stop env ?w1 (snd (snd (fst (GetVMIP env vmName ?w1))) = None) (snd (GetVMIP env vmName ?w1))"
    by (rule GetVMIP_fail_stop)
  have "snd (snd (fst (waitForVMIP env vmName w))) = snd (snd (fst (GetVMIP env vmName ?w1)))"
    "snd (waitForVMIP env vmName w) = snd (GetVMIP env vmName ?w1)"
    by (auto simp: waitForVMIP_def split: prod.splits)
  then show ?thesis using fail_stop_trans [OF 1 2] by simp
qed

lemma AddDHCPReservation_fail_stop:
  "fail_stop env w (fst (AddDHCPReservation env n m i w) = None) (snd (AddDHCPReservation env n m i w))"
proof (rule fail_stop_step [where c = "LookupNetworkByName n"])
  fix w1 assume 1: "issue env (LookupNetworkByName n) w = (None, w1)"
  let ?c = "NetworkUpdateAddLastDHCPHost n (dhcpHostXML m i) [NETWORK_UPDATE_AFFECT_LIVE, NETWORK_UPDATE_AFFECT_CONFIG]"
  show "fail_stop env w1 (fst (AddDHCPReservation env n m i w) = None) (snd (AddDHCPReservation env n m i w))"
    by (rule fail_stop_step [where c = ?c]) (use 1 in \<open>simp_all add: AddDHCPReservation_def fail_stop_refl\<close>)
next
  fix err w1 assume "issue env (LookupNetworkByName n) w = (Some err, w1)"
  then show "\<not> fst (AddDHCPReservation env n m i w) = None \<and> snd (AddDHCPReservation env n m i w) = w1"
    by (simp add: AddDHCPReservation_def)
qed

lemma updateHostDNS_fail_stop:
  "fail_stop env w (fst (updateHostDNS env p ip vm w) = Return ()) (snd (updateHostDNS env p ip vm w))"
  by (rule fail_stop_step [where c = "WriteFile (''/etc/hosts.'' @ ClusterName p)
         (ip @ '' '' @ vm @ ''.'' @ ClusterName p @ ''.'' @ BaseDomain p)"])
     (simp_all add: updateHostDNS_def os_WriteFile_def fail_stop_refl)

lemma CreateVM_fail_stop:
  "fail_stop env w (fst (CreateVM env p w) = None) (snd (CreateVM env p w))"
  by (rule fail_stop_step [where c = "DomainCreateXML (domainXML p)"])
     (simp_all add: CreateVM_def fail_stop_refl)

lemma NewLibvirtConnection_fail_stop:
  "fail_stop env w (fst (NewLibvirtConnection env uri w) = None) (snd (NewLibvirtConnection env uri w))"
  by (rule fail_stop_step [where c = "NewConnect uri"])
     (simp_all add: NewLibvirtConnection_def fail_stop_refl)

lemma fail_stop_seq:
  assumes "fail_stop env w ok1 w1"
    and "ok1 \<Longrightarrow> fail_stop env w1 ok w2"
    and "\<not> ok1 \<Longrightarrow> \<not> ok \<and> w2 = w1"
  shows "fail_stop env w ok w2"
proof (cases ok1)
  case True
  then show ?thesis using assms fail_stop_trans [of env w w1 ok w2] by simp
next
  case False
  then show ?thesis using assms by simp
qed

lemma createMasterNodes_from_fail_stop:
  "fail_stop env w (fst (createMasterNodes_from env p i w) = None) (snd (createMasterNodes_from env p i w))"
proof (induction env p i w rule: createMasterNodes_from.induct)
  case (1 env p i w)
  show ?case
  proof (cases "i \<le> NMaster p")
    case False
    then show ?thesis by (subst (1 2) createMasterNodes_from.simps) (simp add: fail_stop_refl)
  next
    case True
    obtain r w1 where c: "CreateVM env (masterParams env p i) w = (r, w1)"
      by (cases "CreateVM env (masterParams env p i) w")
    have fs: "fail_stop env w (r = None) w1"
      using CreateVM_fail_stop [of env w "masterParams env p i"] c by simp
    show ?thesis
    proof (rule fail_stop_seq [OF fs])
      assume r: "r = None"
      then show "fail_stop env w1 (fst (createMasterNodes_from env p i w) = None)
                   (snd (createMasterNodes_from env p i w))"
        using "1.IH" [OF True c [symmetric] r] True c
        by (subst (1 2) createMasterNodes_from.simps) simp
    next
      assume "r \<noteq> None"
      then show "\<not> fst (createMasterNodes_from env p i w) = None \<and>
                 snd (createMasterNodes_from env p i w) = w1"
        using True c by (subst (1 2) createMasterNodes_from.simps) auto
    qed
  qed
qed

lemma createWorkerNodes_from_fail_stop:
  "fail_stop env w (fst (createWorkerNodes_from env p i w) = None) (snd (createWorkerNodes_from env p i w))"
proof (induction env p i w rule: createWorkerNodes_from.induct)
  case (1 env p i w)
  show ?case
  proof (cases "i \<le> NWorker p")
    case False
    then show ?thesis by (subst (1 2) createWorkerNodes_from.simps) (simp add: fail_stop_refl)
  next
    case True
    obtain r w1 where c: "CreateVM env (workerParams env p i) w = (r, w1)"
      by (cases "CreateVM env (workerParams env p i) w")
    have fs: "fail_stop env w (r = None) w1"
      using CreateVM_fail_stop [of env w "workerParams env p i"] c by simp
    show ?thesis
    proof (rule fail_stop_seq [OF fs])
      assume r: "r = None"
      then show "fail_stop env w1 (fst (createWorkerNodes_from env p i w) = None)
                   (snd (createWorkerNodes_from env p i w))"
        using "1.IH" [OF True c [symmetric] r] True c
        by (subst (1 2) createWorkerNodes_from.simps) simp
    next
      assume "r \<noteq> None"
      then show "\<not> fst (createWorkerNodes_from env p i w) = None \<and>
                 snd (createWorkerNodes_from env p i w) = w1"
        using True c by (subst (1 2) createWorkerNodes_from.simps) auto
    qed
  qed
qed

lemma waitForVMIPs_role_fail_stop:
  "fail_stop env w (fst (waitForVMIPs_role env p role i w) = Return None)
     (snd (waitForVMIPs_role env p role i w))"
proof (induction env p role i w rule: waitForVMIPs_role.induct)
  case (1 env p role i w)
  let ?n = "ClusterName p @ ''-'' @ role @ ''-'' @ itoa i"
  let ?R = "waitForVMIPs_role env p role i w"
  show ?case
  proof (cases "i \<le> getRoleCount p role")
    case False
    then show ?thesis by (subst (1 2) waitForVMIPs_role.simps) (simp add: fail_stop_refl)
  next
    case True
    obtain ip mac e w1 where wt: "waitForVMIP env ?n w = ((ip, mac, e), w1)"
      by (metis prod.collapse)
    have fs1: "fail_stop env w (e = None) w1"
      using waitForVMIP_fail_stop [of env w ?n] wt by simp
    show ?thesis
    proof (rule fail_stop_seq [OF fs1])
      assume "e \<noteq> None"
      then show "\<not> fst ?R = Return None \<and> snd ?R = w1"
        using True wt by (subst (1 2) waitForVMIPs_role.simps) auto
    next
      assume e: "e = None"
      obtain r w2 where ad: "AddDHCPReservation env ip mac (VirNet p) w1 = (r, w2)"
        by (cases "AddDHCPReservation env ip mac (VirNet p) w1")
      have fs2: "fail_stop env w1 (r = None) w2"
        using AddDHCPReservation_fail_stop [of env w1 ip mac "VirNet p"] ad by simp
      show "fail_stop env w1 (fst ?R = Return None) (snd ?R)"
      proof (rule fail_stop_seq [OF fs2])
        assume "r \<noteq> None"
        then show "\<not> fst ?R = Return None \<and> snd ?R = w2"
          using True wt e ad by (subst (1 2) waitForVMIPs_role.simps) auto
      next
        assume r: "r = None"
        obtain u w3 where up: "updateHostDNS env p ip ?n w2 = (u, w3)"
          by (cases "updateHostDNS env p ip ?n w2")
        have fs3: "fail_stop env w2 (u = Return ()) w3"
          using updateHostDNS_fail_stop [of env w2 p ip ?n] up by simp
        show "fail_stop env w2 (fst ?R = Return None) (snd ?R)"
        proof (rule fail_stop_seq [OF fs3])
          assume u: "u = Return ()"
          have "?R = waitForVMIPs_role env p role (i + 1) w3"
            using True wt e ad r up u by (subst waitForVMIPs_role.simps) simp
          moreover have "fail_stop env w3 (fst (waitForVMIPs_role env p role (i + 1) w3) = Return None)
                  (snd (waitForVMIPs_role env p role (i + 1) w3))"
            using "1.IH" [OF True refl wt [symmetric] refl refl e ad [symmetric] r up [symmetric] u]
            by simp
          ultimately show "fail_stop env w3 (fst ?R = Return None) (snd ?R)" by simp
        next
          assume "u \<noteq> Return ()"
          then show "\<not> fst ?R = Return None \<and> snd ?R = w3"
            using True wt e ad r up
            by (subst (1 2) waitForVMIPs_role.simps) (auto split: result.splits)
        qed
      qed
    qed
  qed
qed

lemma waitForVMIPs_roles_fail_stop:
  "fail_stop env w (fst (waitForVMIPs_roles env p roles w) = Return None)
     (snd (waitForVMIPs_roles env p roles w))"
proof (induction roles arbitrary: w)
  case Nil
  then show ?case by (simp add: fail_stop_refl)
next
  case (Cons role roles)
  obtain r w1 where rl: "waitForVMIPs_role env p role 1 w = (r, w1)"
    by (cases "waitForVMIPs_role env p role 1 w")
  have fs: "fail_stop env w (r = Return None) w1"
    using waitForVMIPs_role_fail_stop [of env w p role 1] rl by simp
  show ?case
  proof (rule fail_stop_seq [OF fs])
    assume "r = Return None"
    then show "fail_stop env w1 (fst (waitForVMIPs_roles env p (role # roles) w) = Return None)
                 (snd (waitForVMIPs_roles env p (role # roles) w))"
      using Cons.IH [of w1] rl by simp
  next
    assume "r \<noteq> Return None"
    then show "\<not> fst (waitForVMIPs_roles env p (role # roles) w) = Return None \<and>
               snd (waitForVMIPs_roles env p (role # roles) w) = w1"
      using rl by (auto split: result.splits option.splits)
  qed
qed

lemma CreateNodes_stages_fail_stop:
  "fail_stop env w (fst (CreateNodes_stages env p w) = Return None) (snd (CreateNodes_stages env p w))"
proof -
  let ?S = "CreateNodes_stages env p w"
  obtain r1 w1 where c1: "NewLibvirtConnection env (LibguestfsBackend p) w = (r1, w1)"
    by (cases "NewLibvirtConnection env (LibguestfsBackend p) w")
  obtain r2 w2 where c2: "createBootstrapNode env p w1 = (r2, w2)"
    by (cases "createBootstrapNode env p w1")
  obtain r3 w3 where c3: "createMasterNodes env p w2 = (r3, w3)"
    by (cases "createMasterNodes env p w2")
  obtain r4 w4 where c4: "createWorkerNodes env p w3 = (r4, w4)"
    by (cases "createWorkerNodes env p w3")
  have fs1: "fail_stop env w (r1 = None) w1"
    using NewLibvirtConnection_fail_stop [of env w "LibguestfsBackend p"] c1 by simp
  have fs2: "fail_stop env w1 (r2 = None) w2"
    using CreateVM_fail_stop [of env w1 "bootstrapParams env p"] c2
    by (simp add: createBootstrapNode_def)
  have fs3: "fail_stop env w2 (r3 = None) w3"
    using createMasterNodes_from_fail_stop [of env w2 p 1] c3 by (simp add: createMasterNodes_def)
  have fs4: "fail_stop env w3 (r4 = None) w4"
    using createWorkerNodes_from_fail_stop [of env w3 p 1] c4 by (simp add: createWorkerNodes_def)
  have fs5: "fail_stop env w4 (fst (waitForVMIPs env p w4) = Return None) (snd (waitForVMIPs env p w4))"
    unfolding waitForVMIPs_def by (rule waitForVMIPs_roles_fail_stop)
  show ?thesis
  proof (rule fail_stop_seq [OF fs1])
    assume "r1 \<noteq> None"
    then show "\<not> fst ?S = Return None \<and> snd ?S = w1"
      using c1 by (auto simp: CreateNodes_stages_def)
  next
    assume r1: "r1 = None"
    show "fail_stop env w1 (fst ?S = Return None) (snd ?S)"
    proof (rule fail_stop_seq [OF fs2])
      assume "r2 \<noteq> None"
      then show "\<not> fst ?S = Return None \<and> snd ?S = w2"
        using c1 r1 c2 by (auto simp: CreateNodes_stages_def)
    next
      assume r2: "r2 = None"
      show "fail_stop env w2 (fst ?S = Return None) (snd ?S)"
      proof (rule fail_stop_seq [OF fs3])
        assume "r3 \<noteq> None"
        then show "\<not> fst ?S = Return None \<and> snd ?S = w3"
          using c1 r1 c2 r2 c3 by (auto simp: CreateNodes_stages_def)
      next
        assume r3: "r3 = None"
        show "fail_stop env w3 (fst ?S = Return None) (snd ?S)"
        proof (rule fail_stop_seq [OF fs4])
          assume "r4 \<noteq> None"
          then show "\<not> fst ?S = Return None \<and> snd ?S = w4"
            using c1 r1 c2 r2 c3 r3 c4 by (auto simp: CreateNodes_stages_def)
        next
          assume r4: "r4 = None"
          have "?S = waitForVMIPs env p w4"
            using c1 r1 c2 r2 c3 r3 c4 r4 by (simp add: CreateNodes_stages_def)
          then show "fail_stop env w4 (fst ?S = Return None) (snd ?S)"
            using fs5 by simp
        qed
      qed
    qed
  qed
qed

lemma CreateNodes_stops: "fst (CreateNodes_stages env p w) \<noteq> Return None \<Longrightarrow>
   CreateNodes env p w = Some (CreateNodes_stages env p w)"
  by (cases "CreateNodes_stages env p w") (auto simp: CreateNodes_def split: result.splits option.splits)

lemma CreateVM_ok:
  "fails env (trace w) (DomainCreateXML (domainXML vp)) = None \<Longrightarrow>
   CreateVM env vp w = (None, w\<lparr>trace := trace w @ [DomainCreateXML (domainXML vp)]\<rparr>)"
  by (simp add: CreateVM_def issue_def)

lemma CreateVM_err:
  "fails env (trace w) (DomainCreateXML (domainXML vp)) = Some e \<Longrightarrow>
   CreateVM env vp w = (Some (''failed to create domain: '' @ e),
                        w\<lparr>trace := trace w @ [DomainCreateXML (domainXML vp)]\<rparr>)"
  by (simp add: CreateVM_def issue_def)

lemma createMasterNodes_from_fails_at:
  "i \<le> k \<Longrightarrow> k \<le> NMaster p \<Longrightarrow>
   failure_free env (trace w) (map (master_call env p) [i..k - 1]) \<Longrightarrow>
   fails env (trace w @ map (master_call env p) [i..k - 1]) (master_call env p k) = Some e \<Longrightarrow>
   createMasterNodes_from env p i w =
     (Some (''failed to create domain: '' @ e), w\<lparr>trace := trace w @ map (master_call env p) [i..k]\<rparr>)"
proof (induction env p i w rule: createMasterNodes_from.induct)
  case (1 env p i w)
  show ?case
  proof (cases "i = k")
    case True
    then have "CreateVM env (masterParams env p i) w =
        (Some (''failed to create domain: '' @ e), w\<lparr>trace := trace w @ [master_call env p k]\<rparr>)"
      using "1.prems" CreateVM_err [of env w "masterParams env p k" e]
      by (simp add: master_call_def)
    then show ?thesis using True "1.prems"
      by (subst createMasterNodes_from.simps) simp
  next
    case False
    then have lt: "i < k" using "1.prems" by simp
    then have up1: "[i..k - 1] = i # [i + 1..k - 1]" by (simp add: upto_rec1)
    have up2: "[i..k] = i # [i + 1..k]" using lt by (simp add: upto_rec1)
    let ?w1 = "w\<lparr>trace := trace w @ [master_call env p i]\<rparr>"
    have "response env (trace w) (master_call env p i) = None"
      and ff: "failure_free env (trace w @ [master_call env p i]) (map (master_call env p) [i + 1..k - 1])"
      using "1.prems"(3) up1 by simp_all
    then have ok: "fails env (trace w) (master_call env p i) = None"
      by (simp add: master_call_def)
    have c: "CreateVM env (masterParams env p i) w = (None, ?w1)"
      using ok CreateVM_ok [of env w "masterParams env p i"] by (simp add: master_call_def)
    have le: "i \<le> NMaster p" using lt "1.prems" by simp
    have "createMasterNodes_from env p (i + 1) ?w1 =
       (Some (''failed to create domain: '' @ e), ?w1\<lparr>trace := trace ?w1 @ map (master_call env p) [i + 1..k]\<rparr>)"
    proof (rule "1.IH" [OF le c [symmetric] refl])
      show "i + 1 \<le> k" using lt by simp
      show "k \<le> NMaster p" by (rule "1.prems")
      show "failure_free env (trace ?w1) (map (master_call env p) [i + 1..k - 1])" using ff by simp
      show "fails env (trace ?w1 @ map (master_call env p) [i + 1..k - 1]) (master_call env p k) = Some e"
        using "1.prems"(4) up1 by simp
    qed
    then show ?thesis using le c up2
      by (subst createMasterNodes_from.simps) simp
  qed
qed

lemma domainXML_eq_Name:
  "domainXML a = domainXML b \<Longrightarrow> \<exists>ra rb. Name a @ ra = Name b @ rb"
  unfolding domainXML_def
  apply (simp only: append_Cons append_Nil list.inject simp_thms)
  apply (intro exI)
  apply assumption
  done

lemma worker_xml_fresh:
  "domainXML (workerParams env p j) \<noteq> domainXML (bootstrapParams env p)"
  "domainXML (workerParams env p j) \<noteq> domainXML (masterParams env p i)"
  using domainXML_eq_Name [of "workerParams env p j" "bootstrapParams env p"]
    domainXML_eq_Name [of "workerParams env p j" "masterParams env p i"]
  by (auto simp: workerParams_def bootstrapParams_def masterParams_def)

lemma worker_call_fresh:
  "worker_call env p j \<notin> set ([NewConnect (LibguestfsBackend p), bootstrap_call env p] @
      map (master_call env p) is)"
  using worker_xml_fresh [of env p j]
  by (auto simp: worker_call_def master_call_def bootstrap_call_def)

lemma waitForVMIPs_role_after_wait:
  assumes "i \<le> getRoleCount p role"
    and "waitForVMIP env (ClusterName p @ ''-'' @ role @ ''-'' @ itoa i) w = ((ip, mac, None), w1)"
  shows "\<exists>evs. trace (snd (waitForVMIPs_role env p role i w)) = trace w1 @ LookupNetworkByName ip # evs"
proof -
  let ?n = "ClusterName p @ ''-'' @ role @ ''-'' @ itoa i"
  obtain r w2 where ad: "AddDHCPReservation env ip mac (VirNet p) w1 = (r, w2)"
    by (cases "AddDHCPReservation env ip mac (VirNet p) w1")
  obtain evs where w2: "trace w2 = trace w1 @ LookupNetworkByName ip # evs"
    using AddDHCPReservation_trace [of env ip mac "VirNet p" w1] ad by auto
  obtain u w3 where up: "updateHostDNS env p ip ?n w2 = (u, w3)"
    by (cases "updateHostDNS env p ip ?n w2")
  obtain cs where w3: "trace w3 = trace w2 @ cs"
    using fail_stop_extends [OF updateHostDNS_fail_stop [of env w2 p ip ?n]] up by auto
  obtain ds where w4: "trace (snd (waitForVMIPs_role env p role (i + 1) w3)) = trace w3 @ ds"
    using fail_stop_extends [OF waitForVMIPs_role_fail_stop [of env w3 p role "i + 1"]] by auto
  show ?thesis
  proof (cases r)
    case (Some err)
    then have "waitForVMIPs_role env p role i w = (Return (Some err), w2)"
      using assms ad by (subst waitForVMIPs_role.simps) simp
    then show ?thesis using w2 by simp
  next
    case None
    show ?thesis
    proof (cases u)
      case (Return x)
      then have "waitForVMIPs_role env p role i w = waitForVMIPs_role env p role (i + 1) w3"
        using assms ad None up by (subst waitForVMIPs_role.simps) simp
      then show ?thesis using w2 w3 w4 by simp
    next
      case (Exit m err)
      then have "waitForVMIPs_role env p role i w = (Exit m err, w3)"
        using assms ad None up by (subst waitForVMIPs_role.simps) simp
      then show ?thesis using w2 w3 by simp
    next
      case (Panic m)
      then have "waitForVMIPs_role env p role i w = (Panic m, w3)"
        using assms ad None up by (subst waitForVMIPs_role.simps) simp
      then show ?thesis using w2 w3 by simp
    qed
  qed
qed



section \<open>Leases that are not there yet\<close>

lemma first_ipv4_None: "\<forall>a \<in> set as. Type a \<noteq> IP_ADDR_TYPE_IPV4 \<Longrightarrow> first_ipv4 as = None"
  by (induction as) auto

lemma scan_ifaces_none:
  "\<forall>iface \<in> set ifs. \<not> (Hwaddr iface \<noteq> [] \<and> (\<exists>a \<in> set (Addrs iface). Type a = IP_ADDR_TYPE_IPV4))
   \<Longrightarrow> scan_ifaces ifs = ([], [], None)"
proof (induction ifs)
  case Nil
  then show ?case by simp
next
  case (Cons i ifs)
  then have rest: "scan_ifaces ifs = ([], [], None)" by simp
  show ?case
  proof (cases "Hwaddr i = []")
    case True
    then show ?thesis using rest by simp
  next
    case False
    with Cons.prems have "\<forall>a \<in> set (Addrs i). Type a \<noteq> IP_ADDR_TYPE_IPV4" by auto
    then have "first_ipv4 (Addrs i) = None" by (rule first_ipv4_None)
    then show ?thesis using rest by simp
  qed
qed

lemma GetVMIP_no_lease:
  assumes "no_lease_at env (trace w) vmName"
  shows "GetVMIP env vmName w =
          (([], [], None), w\<lparr>trace := trace w @ [LookupDomainByName vmName, ListAllInterfaceAddressesLease vmName]\<rparr>)"
  using assms by (simp add: GetVMIP_def issue_def no_lease_at_def scan_ifaces_none)

lemma waitForVMIP_no_lease:
  assumes "no_lease_at env (trace w @ [Sleep 5]) vmName"
  shows "waitForVMIP env vmName w =
          (([], [], None), w\<lparr>trace := trace w @ [Sleep 5, LookupDomainByName vmName, ListAllInterfaceAddressesLease vmName]\<rparr>)"
  using GetVMIP_no_lease [of env "snd (issue env (Sleep 5) w)" vmName] assms
  by (simp add: waitForVMIP_def issue_def)

text \<open>
  Claim C10. When the address query of a VM succeeds and shows no interface with both a
  hardware address and an IPv4 address, \<^verbatim>\<open>GetVMIP\<close> returns an empty IP, an empty MAC
  and no error; and the addressing stage, for whatever node \<open>i\<close> of whatever role it
  is at, then goes on to the reservation with the empty IP (the network lookup that
  opens \<^verbatim>\<open>AddDHCPReservation\<close> receives it) instead of stopping.
\<close>

theorem GetVMIP_no_lease_is_success:
  "(no_lease_at env (trace w) vmName \<longrightarrow> fst (GetVMIP env vmName w) = ([], [], None)) \<and>
   (i \<le> getRoleCount params role \<and>
    no_lease_at env (trace w @ [Sleep 5]) (ClusterName params @ ''-'' @ role @ ''-'' @ itoa i) \<longrightarrow>
      (\<exists>evs. trace (snd (waitForVMIPs_role env params role i w)) =
         trace w @ [Sleep 5, LookupDomainByName (ClusterName params @ ''-'' @ role @ ''-'' @ itoa i),
                    ListAllInterfaceAddressesLease (ClusterName params @ ''-'' @ role @ ''-'' @ itoa i),
                    LookupNetworkByName []] @ evs))"
proof (intro conjI impI)
  assume "no_lease_at env (trace w) vmName"
  then show "fst (GetVMIP env vmName w) = ([], [], None)"
    by (simp add: GetVMIP_no_lease)
next
  let ?n = "ClusterName params @ ''-'' @ role @ ''-'' @ itoa i"
  let ?w1 = "w\<lparr>trace := trace w @ [Sleep 5, LookupDomainByName ?n, ListAllInterfaceAddressesLease ?n]\<rparr>"
  assume a: "i \<le> getRoleCount params role \<and> no_lease_at env (trace w @ [Sleep 5]) ?n"
  then have wait: "waitForVMIP env ?n w = (([], [], None), ?w1)"
    by (simp add: waitForVMIP_no_lease)
  from a have le: "i \<le> getRoleCount params role" by simp
  show "\<exists>evs. trace (snd (waitForVMIPs_role env params role i w)) =
         trace w @ [Sleep 5, LookupDomainByName ?n, ListAllInterfaceAddressesLease ?n,
                    LookupNetworkByName []] @ evs"
    using waitForVMIPs_role_after_wait [OF le wait] by simp
qed

theorem GetVMIP_no_lease_is_success_witness:
  "fst (GetVMIP env_ipv6_only ''ocp-master-1'' world0) = ([], [], None) \<and>
   (\<exists>evs. trace (snd (waitForVMIPs_role env_ipv6_only params0 ''master'' 1 world0)) =
      [Sleep 5, LookupDomainByName ''ocp-master-1'', ListAllInterfaceAddressesLease ''ocp-master-1'',
       LookupNetworkByName []] @ evs)"
  using GetVMIP_no_lease_is_success [of env_ipv6_only world0 "''ocp-master-1''" 1 params0 "''master''"]
  by (simp add: no_lease_at_def env_ipv6_only_def env_ok_def world0_def params0_def
      getRoleCount_def itoa_def nat_digits.simps)

end
